theory Spec2Isabelle
  imports Complex_Main
begin

section \<open>JavaScript values\<close>

text \<open>
  A JavaScript string is a sequence of UTF-16 code units; a code unit is modelled as a
  natural number, so that the whitespace class of regular expressions, which reaches
  beyond Latin-1, is the one of the language. \<open>js\<close> embeds a literal of the source.
  A thrown \<open>Error\<close> carries its message; a function that may throw, and an \<open>async\<close>
  function whose promise may reject, returns \<open>exn + 'a\<close> with \<open>Inl\<close> the exception.
  Numbers that count milliseconds are integers (\<open>Date.now()\<close> and the digits of a nonce);
  amounts of USDC are reals, compared exactly as the finite doubles of the source are.
\<close>

type_synonym js_string = "nat list"

definition js :: "string \<Rightarrow> js_string" where
  "js s = map of_char s"

datatype exn = Error js_string

fun message_of :: "exn \<Rightarrow> js_string" where
  "message_of (Error m) = m"

definition try_catch :: "exn + 'a \<Rightarrow> (exn \<Rightarrow> exn + 'a) \<Rightarrow> exn + 'a" where
  "try_catch body handler = (case body of Inl e \<Rightarrow> handler e | Inr v \<Rightarrow> Inr v)"

text \<open>\<open>!x\<close> for a value that is \<open>undefined\<close> (\<open>None\<close>) or a string: only the empty string is falsy.\<close>

definition falsy :: "js_string option \<Rightarrow> bool" where
  "falsy x = (case x of None \<Rightarrow> True | Some s \<Rightarrow> s = [])"

text \<open>
  The character classes of a regular expression without the \<open>u\<close> flag: \<open>\s\<close> is
  WhiteSpace and LineTerminator of ECMAScript (TAB, LF, VT, FF, CR, SP, NBSP, U+1680,
  U+2000 to U+200A, U+2028, U+2029, U+202F, U+205F, U+3000, U+FEFF), \<open>\d\<close> is \<open>0\<close> to \<open>9\<close>.
\<close>

definition is_space :: "nat \<Rightarrow> bool" where
  "is_space c = (c \<in> {9, 10, 11, 12, 13, 32, 160, 5760, 8232, 8233, 8239, 8287, 12288, 65279}
                 \<or> (8192 \<le> c \<and> c \<le> 8202))"

definition is_digit :: "nat \<Rightarrow> bool" where
  "is_digit c = (48 \<le> c \<and> c \<le> 57)"

text \<open>
  \<open>parseInt(s, 10)\<close> on a string of decimal digits, the only strings group 1 can hold.
  The value is kept exact. The source holds it in a double, which is exact below
  \<open>2^53\<close>; a longer string of digits is rounded to a double that is still at least
  \<open>2^53\<close>, beyond every value of the clock, so the comparisons of the freshness checks
  come out as they do on the exact value.
\<close>

definition parseInt :: "js_string \<Rightarrow> int" where
  "parseInt ds = foldl (\<lambda>acc d. acc * 10 + (int d - 48)) 0 ds"

fun strip_prefix :: "'a list \<Rightarrow> 'a list \<Rightarrow> 'a list option" where
  "strip_prefix [] s = Some s"
| "strip_prefix (p # ps) [] = None"
| "strip_prefix (p # ps) (c # cs) = (if p = c then strip_prefix ps cs else None)"

text \<open>
  \<open>message.match(/Nonce:\s*(\d+)/)\<close>. \<open>match_here\<close> tries the pattern at the start of
  its argument and returns group 1: the literal, then the longest run of whitespace,
  then the longest run of digits, which must not be empty (no whitespace is a digit, so
  giving whitespace back never helps). \<open>nonce_match\<close> is the search of a regular
  expression without the \<open>g\<close> flag: the match at the leftmost position that has one.
\<close>

definition match_here :: "js_string \<Rightarrow> js_string option" where
  "match_here s =
     (case strip_prefix (js ''Nonce:'') s of
        None \<Rightarrow> None
      | Some rest \<Rightarrow>
          (let digits = takeWhile is_digit (dropWhile is_space rest)
           in if digits = [] then None else Some digits))"

fun nonce_match :: "js_string \<Rightarrow> js_string option" where
  "nonce_match [] = None"
| "nonce_match (c # cs) =
     (case match_here (c # cs) of
        Some digits \<Rightarrow> Some digits
      | None \<Rightarrow> nonce_match cs)"

section \<open>Signature verification\<close>

definition SIGNATURE_EXPIRY_MS :: int where
  "SIGNATURE_EXPIRY_MS = 60000"

record VerifySignatureResult =
  valid :: bool
  address :: "js_string option"
  error :: "js_string option"

text \<open>
  \<open>verifySignature\<close>, with the clock (\<open>Date.now()\<close>) and viem's \<open>recoverMessageAddress\<close>
  as parameters; the latter throws on a signature it cannot decode. The \<open>try\<close> block is
  the first argument of \<open>try_catch\<close>, the \<open>catch\<close> block the second. The line written
  to the console by the \<open>catch\<close> block is not part of the result and is left out.
\<close>

definition verifySignature ::
  "int \<Rightarrow> (js_string \<Rightarrow> js_string \<Rightarrow> exn + js_string) \<Rightarrow> js_string \<Rightarrow> js_string
     \<Rightarrow> exn + VerifySignatureResult" where
  "verifySignature now recoverMessageAddress message signature =
     try_catch
       (case nonce_match message of
          None \<Rightarrow> Inr \<lparr>valid = False, address = None, error = Some (js ''Message missing nonce'')\<rparr>
        | Some nonceMatch \<Rightarrow>
            (let nonce = parseInt nonceMatch;
                 age = now - nonce
             in if age > SIGNATURE_EXPIRY_MS
                then Inr \<lparr>valid = False, address = None, error = Some (js ''Signature expired'')\<rparr>
                else if age < - 5000
                then Inr \<lparr>valid = False, address = None,
                           error = Some (js ''Invalid nonce timestamp'')\<rparr>
                else (case recoverMessageAddress message signature of
                        Inl e \<Rightarrow> Inl e
                      | Inr recoveredAddress \<Rightarrow>
                          Inr \<lparr>valid = True, address = Some recoveredAddress, error = None\<rparr>)))
       (\<lambda>e. Inr \<lparr>valid = False, address = None,
                  error = Some (js ''Signature verification failed'')\<rparr>)"

text \<open>
  The words of the specification, to compare the code with. The final line of a
  message is what follows its last line feed; \<open>final_line_nonce\<close> is the integer of a
  final line of the form \<open>Nonce: <digits>\<close>. \<open>verify_with_nonce\<close> is steps 2 to 4 of the
  specified procedure for a given nonce: expiry, future nonce, recovery.
\<close>

definition final_line :: "js_string \<Rightarrow> js_string" where
  "final_line m = rev (takeWhile (\<lambda>c. c \<noteq> 10) (rev m))"

definition before_final_line :: "js_string \<Rightarrow> js_string" where
  "before_final_line m = rev (dropWhile (\<lambda>c. c \<noteq> 10) (rev m))"

definition final_line_nonce :: "js_string \<Rightarrow> int option" where
  "final_line_nonce m =
     (case strip_prefix (js ''Nonce:'') (final_line m) of
        None \<Rightarrow> None
      | Some rest \<Rightarrow>
          (let ds = dropWhile is_space rest
           in if ds \<noteq> [] \<and> list_all is_digit ds then Some (parseInt ds) else None))"

definition verify_with_nonce ::
  "int \<Rightarrow> (js_string \<Rightarrow> js_string \<Rightarrow> exn + js_string) \<Rightarrow> js_string \<Rightarrow> js_string \<Rightarrow> int
     \<Rightarrow> exn + VerifySignatureResult" where
  "verify_with_nonce now recoverMessageAddress message signature nonce =
     (if now - nonce > 60000
      then Inr \<lparr>valid = False, address = None, error = Some (js ''Signature expired'')\<rparr>
      else if now - nonce < - 5000
      then Inr \<lparr>valid = False, address = None, error = Some (js ''Invalid nonce timestamp'')\<rparr>
      else (case recoverMessageAddress message signature of
              Inl e \<Rightarrow> Inr \<lparr>valid = False, address = None,
                            error = Some (js ''Signature verification failed'')\<rparr>
            | Inr a \<Rightarrow> Inr \<lparr>valid = True, address = Some a, error = None\<rparr>))"

text \<open>
  The message contains a match of the pattern: some occurrence of \<open>Nonce:\<close> is followed
  by whitespace, possibly none, and then by at least one digit.
\<close>

definition has_nonce_pattern :: "js_string \<Rightarrow> bool" where
  "has_nonce_pattern m =
     (\<exists>p ws ds r. m = p @ js ''Nonce:'' @ ws @ ds @ r \<and> list_all is_space ws \<and> ds \<noteq> []
        \<and> list_all is_digit ds)"

text \<open>
  Two recoveries, one that accepts every signature and one that throws on every
  signature, a message in the wire format, and one whose parameter line holds a nonce too.
\<close>

definition recover_any :: "js_string \<Rightarrow> js_string \<Rightarrow> exn + js_string" where
  "recover_any message signature = Inr (js ''0xA11CE'')"

definition recover_none :: "js_string \<Rightarrow> js_string \<Rightarrow> exn + js_string" where
  "recover_none message signature = Inl (Error (js ''invalid signature length''))"

definition plain_message :: js_string where
  "plain_message = js ''Update SIP\<newline>sipId: 7, status: active\<newline>Nonce: 1700000000000''"

definition two_nonce_message :: js_string where
  "two_nonce_message =
     js ''Update SIP\<newline>sipId: Nonce: 1, status: active\<newline>Nonce: 1700000000000''"


section \<open>The plan store\<close>

text \<open>
  The rows of \<open>db.service\<close>. The field \<open>id\<close> of the source is written \<open>id'\<close>. An amount
  is a JavaScript number. The hosted store is an external collaborator: its tables are
  the state \<open>db\<close>, and what it answers to one request is a parameter of the function
  that sends the request. \<open>Refused\<close> is an answer with an error (the store is
  unreachable, or rejects the request for a reason that is not modelled); \<open>Served\<close>
  carries the identifier and the timestamp that the store generates for a new row.
  The \<open>CHECK\<close> constraints of the \<open>sips\<close> table are those of its migration.
\<close>

record User =
  id' :: js_string
  wallet_address :: js_string
  created_at :: js_string

record SIP =
  id' :: js_string
  user_id :: js_string
  asset_name :: js_string
  asset_index :: int
  monthly_amount_usdc :: real
  status :: js_string
  created_at :: js_string
  updated_at :: js_string

record db =
  users :: "User list"
  sips :: "SIP list"

datatype reply = Refused | Served js_string js_string

definition sips_check :: "SIP \<Rightarrow> bool" where
  "sips_check row =
     (monthly_amount_usdc row \<ge> 1000
      \<and> status row \<in> {js ''active'', js ''paused'', js ''cancelled''})"

definition getUserByWallet :: "reply \<Rightarrow> js_string \<Rightarrow> db \<Rightarrow> User option \<times> db" where
  "getUserByWallet answer walletAddress d =
     (case answer of
        Refused \<Rightarrow> (None, d)
      | Served new_id now \<Rightarrow>
          (case find (\<lambda>u. wallet_address u = walletAddress) (users d) of
             Some u \<Rightarrow> (Some u, d)
           | None \<Rightarrow>
               (let u = \<lparr>User.id' = new_id, wallet_address = walletAddress, User.created_at = now\<rparr>
                in if new_id \<in> set (map User.id' (users d)) then (None, d)
                   else (Some u, d\<lparr>users := users d @ [u]\<rparr>))))"

definition db_createSIP ::
  "reply \<Rightarrow> js_string \<Rightarrow> js_string \<Rightarrow> int \<Rightarrow> real \<Rightarrow> db \<Rightarrow> SIP option \<times> db" where
  "db_createSIP answer userId assetName assetIndex monthlyAmountUsdc d =
     (case answer of
        Refused \<Rightarrow> (None, d)
      | Served new_id now \<Rightarrow>
          (let row = \<lparr>id' = new_id, user_id = userId, asset_name = assetName,
                       asset_index = assetIndex, monthly_amount_usdc = monthlyAmountUsdc,
                       status = js ''active'', created_at = now, updated_at = now\<rparr>
           in if sips_check row \<and> new_id \<notin> set (map SIP.id' (sips d))
              then (Some row, d\<lparr>sips := sips d @ [row]\<rparr>)
              else (None, d)))"

text \<open>
  \<open>update({status, updated_at}).eq('id', sipId)\<close>: every row with that identifier is
  overwritten, whatever its current status; an update that matches no row is not an error.
  \<open>served\<close> is the store's answer, \<open>now\<close> is \<open>new Date().toISOString()\<close>.
\<close>

definition db_updateSIPStatus ::
  "bool \<Rightarrow> js_string \<Rightarrow> js_string \<Rightarrow> js_string \<Rightarrow> db \<Rightarrow> bool \<times> db" where
  "db_updateSIPStatus served now sipId status' d =
     (let write = (\<lambda>row. row\<lparr>status := status', updated_at := now\<rparr>);
          hit = filter (\<lambda>row. SIP.id' row = sipId) (sips d)
      in if served \<and> list_all (\<lambda>row. sips_check (write row)) hit
         then (True, d\<lparr>sips := map (\<lambda>row. if SIP.id' row = sipId then write row else row) (sips d)\<rparr>)
         else (False, d))"

section \<open>The plan service\<close>

record SIPResult =
  success :: bool
  sip :: "SIP option"
  message :: "js_string option"
  error :: "js_string option"

record CreateSIPParams =
  walletAddress :: js_string
  assetName :: js_string
  assetIndex :: int
  monthlyAmountUsdc :: real

text \<open>\<open>createSIP\<close> of \<open>sip.service\<close>; the two answers are those to the upsert of the user and to the insert of the plan.\<close>

definition createSIP :: "reply \<Rightarrow> reply \<Rightarrow> CreateSIPParams \<Rightarrow> db \<Rightarrow> SIPResult \<times> db" where
  "createSIP answer1 answer2 params d =
     (if monthlyAmountUsdc params < 1000
      then (\<lparr>success = False, sip = None, message = None,
              error = Some (js ''Monthly investment must be at least 1000 USDC'')\<rparr>, d)
      else (case getUserByWallet answer1 (walletAddress params) d of
              (None, d1) \<Rightarrow>
                (\<lparr>success = False, sip = None, message = None,
                   error = Some (js ''User not found'')\<rparr>, d1)
            | (Some user, d1) \<Rightarrow>
                (case db_createSIP answer2 (User.id' user) (assetName params) (assetIndex params)
                        (monthlyAmountUsdc params) d1 of
                   (None, d2) \<Rightarrow>
                     (\<lparr>success = False, sip = None, message = None,
                        error = Some (js ''Failed to create SIP'')\<rparr>, d2)
                 | (Some row, d2) \<Rightarrow>
                     (\<lparr>success = True, sip = Some row,
                        message = Some (js ''SIP created successfully''), error = None\<rparr>, d2))))"

definition updateSIPStatus ::
  "bool \<Rightarrow> js_string \<Rightarrow> js_string \<Rightarrow> js_string \<Rightarrow> db \<Rightarrow> SIPResult \<times> db" where
  "updateSIPStatus served now sipId status' d =
     (case db_updateSIPStatus served now sipId status' d of
        (False, d') \<Rightarrow>
          (\<lparr>success = False, sip = None, message = None,
             error = Some (js ''Failed to update SIP status'')\<rparr>, d')
      | (True, d') \<Rightarrow>
          (\<lparr>success = True, sip = None,
             message = Some (js ''SIP '' @ (if status' = js ''active'' then js ''resumed'' else status')),
             error = None\<rparr>, d'))"

text \<open>The status of the plan with a given identifier, if the store holds one.\<close>

definition status_of :: "db \<Rightarrow> js_string \<Rightarrow> js_string option" where
  "status_of d sipId = map_option status (find (\<lambda>row. SIP.id' row = sipId) (sips d))"

section \<open>The HTTP boundary\<close>

text \<open>
  The body of a request is a JSON object whose fields are strings, a map from field
  names to values; \<open>Inl\<close> is a body that \<open>request.json()\<close> cannot parse. A response is its
  HTTP status and its JSON payload.
\<close>

datatype payload = ErrorJson "js_string option" | ResultJson SIPResult

record Response =
  http_status :: nat
  json :: payload

definition internal_error :: "exn \<Rightarrow> Response" where
  "internal_error e =
     \<lparr>http_status = 500,
      json = ErrorJson (Some (if message_of e \<noteq> [] then message_of e
                              else js ''Internal server error''))\<rparr>"

definition PATCH ::
  "int \<Rightarrow> (js_string \<Rightarrow> js_string \<Rightarrow> exn + js_string) \<Rightarrow> bool \<Rightarrow> js_string
     \<Rightarrow> exn + (string \<rightharpoonup> js_string) \<Rightarrow> db \<Rightarrow> Response \<times> db" where
  "PATCH clock recoverMessageAddress served now request d =
     (case request of
        Inl e \<Rightarrow> (internal_error e, d)
      | Inr body \<Rightarrow>
          (if falsy (body ''sipId'') \<or> falsy (body ''status'') \<or> falsy (body ''message'')
                \<or> falsy (body ''signature'')
           then (\<lparr>http_status = 400, json = ErrorJson (Some (js ''Missing required fields''))\<rparr>, d)
           else (case verifySignature clock recoverMessageAddress
                        (the (body ''message'')) (the (body ''signature'')) of
                   Inl e \<Rightarrow> (internal_error e, d)
                 | Inr verifyResult \<Rightarrow>
                     (if \<not> valid verifyResult
                      then (\<lparr>http_status = 401,
                              json = ErrorJson (Some (if falsy (VerifySignatureResult.error verifyResult)
                                                      then js ''Invalid signature''
                                                      else the (VerifySignatureResult.error verifyResult)))\<rparr>,
                            d)
                      else (case updateSIPStatus served now
                                   (the (body ''sipId'')) (the (body ''status'')) d of
                              (result, d') \<Rightarrow>
                                (if \<not> success result
                                 then (\<lparr>http_status = 500, json = ErrorJson (error result)\<rparr>, d')
                                 else (\<lparr>http_status = 200, json = ResultJson result\<rparr>, d')))))))"

text \<open>
  A store with one cancelled plan, two request bodies that carry the same message and
  signature and name different plans and statuses, an empty store and the parameters of
  a plan at the minimum amount.
\<close>

definition cancelled_plan :: SIP where
  "cancelled_plan =
     \<lparr>id' = js ''p1'', user_id = js ''u1'', asset_name = js ''BTC'', asset_index = 3,
      monthly_amount_usdc = 1500, status = js ''cancelled'',
      created_at = js ''2025-01-01T00:00:00Z'', updated_at = js ''2025-01-02T00:00:00Z''\<rparr>"

definition cancelled_db :: db where
  "cancelled_db =
     \<lparr>users = [\<lparr>User.id' = js ''u1'', wallet_address = js ''0xA11CE'',
                 User.created_at = js ''2025-01-01T00:00:00Z''\<rparr>],
      sips = [cancelled_plan]\<rparr>"

definition resume_body :: "string \<rightharpoonup> js_string" where
  "resume_body =
     [''sipId'' \<mapsto> js ''p1'', ''status'' \<mapsto> js ''active'', ''message'' \<mapsto> plain_message,
      ''signature'' \<mapsto> js ''0x1b'']"

definition pause_body :: "string \<rightharpoonup> js_string" where
  "pause_body =
     [''sipId'' \<mapsto> js ''p2'', ''status'' \<mapsto> js ''paused'', ''message'' \<mapsto> plain_message,
      ''signature'' \<mapsto> js ''0x1b'']"

definition empty_db :: db where
  "empty_db = \<lparr>users = [], sips = []\<rparr>"

definition create_params :: CreateSIPParams where
  "create_params =
     \<lparr>walletAddress = js ''0xB0B'', assetName = js ''BTC'', assetIndex = 3,
      monthlyAmountUsdc = 1000\<rparr>"

section \<open>Agent key storage\<close>

text \<open>
  \<open>localStorage\<close> is a map from keys to values; \<open>None\<close> for the window is an environment
  without one (\<open>typeof window === "undefined"\<close>).
\<close>

type_synonym localStorage = "js_string \<rightharpoonup> js_string"

definition getAgentPrivateKey :: "localStorage option \<Rightarrow> js_string \<Rightarrow> js_string option" where
  "getAgentPrivateKey window userAddress =
     (case window of
        None \<Rightarrow> None
      | Some storage \<Rightarrow> storage (js ''agentPrivateKey-'' @ userAddress))"

definition saveAgentPrivateKey ::
  "localStorage option \<Rightarrow> js_string \<Rightarrow> js_string \<Rightarrow> exn + localStorage option" where
  "saveAgentPrivateKey window userAddress privateKey =
     (case window of
        None \<Rightarrow> Inl (Error (js ''Cannot save private key in non-browser environment''))
      | Some storage \<Rightarrow> Inr (Some (storage(js ''agentPrivateKey-'' @ userAddress \<mapsto> privateKey))))"

definition empty_window :: "localStorage option" where
  "empty_window = Some Map.empty"

section \<open>Agent provisioning\<close>

text \<open>
  \<open>generateAgentWallet\<close> is not part of the sources at hand: the private key that it
  would return on this call is the parameter \<open>generated\<close>. The function returns the key,
  or the exception of \<open>saveAgentPrivateKey\<close>, and the window after the call.
\<close>

definition getOrCreateAgentPrivateKey ::
  "js_string \<Rightarrow> js_string \<Rightarrow> localStorage option \<Rightarrow> (exn + js_string) \<times> localStorage option" where
  "getOrCreateAgentPrivateKey generated userAddress window =
     (let existingKey = getAgentPrivateKey window userAddress
      in if \<not> falsy existingKey then (Inr (the existingKey), window)
         else (case saveAgentPrivateKey window userAddress generated of
                 Inl e \<Rightarrow> (Inl e, window)
               | Inr window' \<Rightarrow> (Inr generated, window')))"

text \<open>
  The clients of the exchange are external: a client is what its one method used here
  answers. \<open>extraAgents\<close> throws, or resolves to no data, or to the list of delegates;
  \<open>approveAgent\<close> throws or resolves. What a call does besides returning is the list of
  its events, in order: lines on the console and calls of \<open>approveAgent\<close>.
\<close>

record ExtraAgent =
  address :: js_string
  name :: js_string

record InfoClient =
  extraAgents :: "js_string \<Rightarrow> exn + ExtraAgent list option"

record ExchangeClient =
  approveAgent :: "js_string \<Rightarrow> js_string \<Rightarrow> exn + unit"

datatype console_arg = Text js_string | Thrown exn

datatype event =
    ConsoleLog js_string
  | ConsoleWarn js_string console_arg
  | ApproveAgentCalled js_string js_string

definition checkAgentApproval ::
  "InfoClient option \<Rightarrow> js_string \<Rightarrow> js_string \<Rightarrow> (exn + bool) \<times> event list" where
  "checkAgentApproval infoClient userAddress agentAddress =
     (case infoClient of
        None \<Rightarrow> (Inr False, [])
      | Some client \<Rightarrow>
          (case extraAgents client userAddress of
             Inl e \<Rightarrow>
               (Inr False,
                [ConsoleWarn (js ''Failed to check agent approval status:'') (Thrown e)])
           | Inr None \<Rightarrow> (Inr False, [])
           | Inr (Some resp) \<Rightarrow>
               (Inr (find (\<lambda>agent. ExtraAgent.address agent = agentAddress) resp \<noteq> None), [])))"

definition approveAgentIfNeeded ::
  "ExchangeClient option \<Rightarrow> js_string \<Rightarrow> bool \<Rightarrow> (exn + unit) \<times> event list" where
  "approveAgentIfNeeded exchangeClient agentAddress isApproved =
     (if isApproved
      then (Inr (), [ConsoleLog (js ''Agent already approved, skipping approval step'')])
      else (case exchangeClient of
              None \<Rightarrow> (Inl (Error (js ''Exchange client not initialized'')), [])
            | Some client \<Rightarrow>
                (case approveAgent client agentAddress (js ''EzDawg Agent'') of
                   Inr u \<Rightarrow>
                     (Inr (),
                      [ApproveAgentCalled agentAddress (js ''EzDawg Agent''),
                       ConsoleLog (js ''Agent approved successfully'')])
                 | Inl e \<Rightarrow>
                     (Inr (),
                      [ApproveAgentCalled agentAddress (js ''EzDawg Agent''),
                       ConsoleWarn (js ''Agent approval failed (might already be approved):'')
                         (if message_of e \<noteq> [] then Text (message_of e) else Thrown e)]))))"

text \<open>
  Clients for the examples: an exchange that rejects every approval, and three info
  clients, one that cannot be reached, one that answers with no data and one that
  answers with a list holding one delegate.
\<close>

definition rejecting_exchange :: ExchangeClient where
  "rejecting_exchange = \<lparr>approveAgent = (\<lambda>agentAddress agentName. Inl (Error (js ''Extra agent already used'')))\<rparr>"

definition unreachable_info :: InfoClient where
  "unreachable_info = \<lparr>extraAgents = (\<lambda>user. Inl (Error (js ''WebSocket closed'')))\<rparr>"

definition empty_info :: InfoClient where
  "empty_info = \<lparr>extraAgents = (\<lambda>user. Inr None)\<rparr>"

definition listing_info :: InfoClient where
  "listing_info =
     \<lparr>extraAgents = (\<lambda>user. Inr (Some [\<lparr>address = js ''0xA9E27'', name = js ''EzDawg Agent''\<rparr>]))\<rparr>"

section \<open>Properties of the nonce search\<close>

lemma NONCE_eq: "js ''Nonce:'' = [78, 111, 110, 99, 101, 58]"
  by (simp add: js_def)

lemma strip_prefix_Some_iff: "strip_prefix p s = Some r \<longleftrightarrow> s = p @ r"
  by (induction p s rule: strip_prefix.induct) auto

lemma strip_prefix_append [simp]: "strip_prefix p (p @ r) = Some r"
  by (simp add: strip_prefix_Some_iff)

lemma digit_not_space: "is_digit c \<Longrightarrow> \<not> is_space c"
  by (auto simp: is_digit_def is_space_def)

lemma N_not_space: "\<not> is_space 78" "\<not> is_digit 78"
  by (auto simp: is_digit_def is_space_def)

lemma skip_spaces:
  assumes "list_all is_space ws" "ds \<noteq> []" "list_all is_digit ds"
  shows "dropWhile is_space (ws @ ds @ r) = ds @ r"
proof -
  from assms obtain d ds' where ds: "ds = d # ds'" and d: "is_digit d"
    by (cases ds) auto
  have "dropWhile is_space (ws @ ds @ r) = dropWhile is_space (ds @ r)"
    using assms(1) by (simp add: list_all_iff)
  also have "\<dots> = ds @ r"
    using d by (simp add: ds digit_not_space)
  finally show ?thesis .
qed

lemma take_digits:
  assumes "list_all is_digit ds" "r = [] \<or> \<not> is_digit (hd r)"
  shows "takeWhile is_digit (ds @ r) = ds"
  using assms by (cases r) (auto simp: list_all_iff takeWhile_append)

lemma match_here_exact:
  assumes "list_all is_space ws" "ds \<noteq> []" "list_all is_digit ds" "r = [] \<or> \<not> is_digit (hd r)"
  shows "match_here (js ''Nonce:'' @ ws @ ds @ r) = Some ds"
  using assms by (simp add: match_here_def skip_spaces take_digits)

lemma match_here_some:
  assumes "list_all is_space ws" "ds \<noteq> []" "list_all is_digit ds"
  shows "match_here (js ''Nonce:'' @ ws @ ds @ r) \<noteq> None"
proof -
  from assms obtain d ds' where ds: "ds = d # ds'" and d: "is_digit d"
    by (cases ds) auto
  have "takeWhile is_digit (ds @ r) \<noteq> []"
    using d by (simp add: ds)
  then show ?thesis
    using assms by (simp add: match_here_def skip_spaces Let_def)
qed

lemma match_here_Nil [simp]: "match_here [] = None"
  by (simp add: match_here_def NONCE_eq)

lemma nonce_match_append_some: "match_here x \<noteq> None \<Longrightarrow> nonce_match (p @ x) \<noteq> None"
proof (induction p)
  case Nil
  then show ?case by (cases x) (auto split: option.splits)
next
  case (Cons c p)
  then show ?case by (auto split: option.splits)
qed

lemma match_here_decompose:
  assumes "match_here m = Some d"
  shows "\<exists>ws r. m = js ''Nonce:'' @ ws @ d @ r \<and> list_all is_space ws \<and> d \<noteq> [] \<and> list_all is_digit d
           \<and> (r = [] \<or> \<not> is_digit (hd r))"
proof -
  from assms obtain rest where m: "m = js ''Nonce:'' @ rest"
    and d: "d = takeWhile is_digit (dropWhile is_space rest)" and ne: "d \<noteq> []"
    by (auto simp: match_here_def Let_def strip_prefix_Some_iff split: option.splits if_splits)
  let ?ws = "takeWhile is_space rest" and ?r = "dropWhile is_digit (dropWhile is_space rest)"
  have "rest = ?ws @ d @ ?r" by (simp add: d)
  moreover have "list_all is_space ?ws" "list_all is_digit d"
    by (auto simp: d list_all_iff dest: set_takeWhileD)
  moreover have "?r = [] \<or> \<not> is_digit (hd ?r)"
    by (metis hd_dropWhile)
  ultimately show ?thesis using m ne by metis
qed

lemma nonce_match_decompose:
  "nonce_match m = Some d \<Longrightarrow>
     \<exists>p ws r. m = p @ js ''Nonce:'' @ ws @ d @ r \<and> nonce_match p = None \<and> list_all is_space ws \<and> d \<noteq> []
        \<and> list_all is_digit d \<and> (r = [] \<or> \<not> is_digit (hd r))"
proof (induction m)
  case Nil
  then show ?case by simp
next
  case (Cons c cs)
  show ?case
  proof (cases "match_here (c # cs)")
    case (Some d')
    with Cons.prems have "d' = d" by simp
    with Some match_here_decompose obtain ws r where
      "c # cs = js ''Nonce:'' @ ws @ d @ r \<and> list_all is_space ws \<and> d \<noteq> [] \<and> list_all is_digit d
           \<and> (r = [] \<or> \<not> is_digit (hd r))" by blast
    then have "c # cs = [] @ js ''Nonce:'' @ ws @ d @ r \<and> nonce_match [] = None \<and> list_all is_space ws \<and> d \<noteq> [] \<and> list_all is_digit d
           \<and> (r = [] \<or> \<not> is_digit (hd r))" by simp
    then show ?thesis by blast
  next
    case None
    with Cons.prems have "nonce_match cs = Some d" by simp
    from Cons.IH[OF this] obtain p ws r where
      *: "cs = p @ js ''Nonce:'' @ ws @ d @ r" "nonce_match p = None" "list_all is_space ws" "d \<noteq> []"
        "list_all is_digit d" "(r = [] \<or> \<not> is_digit (hd r))" by blast
    have "match_here (c # p) = None"
    proof (rule ccontr)
      assume "match_here (c # p) \<noteq> None"
      then obtain e where "match_here (c # p) = Some e" by auto
      from match_here_decompose[OF this] obtain ws' r' where
        "c # p = js ''Nonce:'' @ ws' @ e @ r'" "list_all is_space ws'" "e \<noteq> []" "list_all is_digit e" by blast
      then have "match_here (js ''Nonce:'' @ ws' @ e @ (r' @ js ''Nonce:'' @ ws @ d @ r)) \<noteq> None"
        using match_here_some by blast
      moreover have "c # cs = js ''Nonce:'' @ ws' @ e @ (r' @ js ''Nonce:'' @ ws @ d @ r)"
        using *(1) \<open>c # p = js ''Nonce:'' @ ws' @ e @ r'\<close>
        by (metis append.assoc append_Cons)
      ultimately show False using None by simp
    qed
    then have "nonce_match (c # p) = None" using *(2) by simp
    moreover have "c # cs = (c # p) @ js ''Nonce:'' @ ws @ d @ r" using *(1) by simp
    ultimately show ?thesis using *(3-6) by blast
  qed
qed

lemma nonce_match_None_iff:
  "nonce_match m = None \<longleftrightarrow>
     \<not> (\<exists>p ws ds r. m = p @ js ''Nonce:'' @ ws @ ds @ r \<and> list_all is_space ws \<and> ds \<noteq> [] \<and> list_all is_digit ds)"
proof
  assume "nonce_match m = None"
  show "\<not> (\<exists>p ws ds r. m = p @ js ''Nonce:'' @ ws @ ds @ r \<and> list_all is_space ws \<and> ds \<noteq> [] \<and> list_all is_digit ds)"
  proof
    assume "\<exists>p ws ds r. m = p @ js ''Nonce:'' @ ws @ ds @ r \<and> list_all is_space ws \<and> ds \<noteq> [] \<and> list_all is_digit ds"
    then obtain p ws ds r where "m = p @ js ''Nonce:'' @ ws @ ds @ r" "list_all is_space ws" "ds \<noteq> []" "list_all is_digit ds"
      by blast
    then have "nonce_match m \<noteq> None"
      using nonce_match_append_some[OF match_here_some] by blast
    with \<open>nonce_match m = None\<close> show False by simp
  qed
next
  assume a: "\<not> (\<exists>p ws ds r. m = p @ js ''Nonce:'' @ ws @ ds @ r \<and> list_all is_space ws \<and> ds \<noteq> [] \<and> list_all is_digit ds)"
  show "nonce_match m = None"
  proof (rule ccontr)
    assume "nonce_match m \<noteq> None"
    then obtain d where "nonce_match m = Some d" by auto
    from nonce_match_decompose[OF this] a show False by blast
  qed
qed


lemma strip_prefix_long:
  "length p \<le> length q \<Longrightarrow> strip_prefix p (q @ x) = map_option (\<lambda>r. r @ x) (strip_prefix p q)"
  by (induction p q rule: strip_prefix.induct) auto

lemma strip_prefix_short:
  assumes "q \<noteq> []" "length q < 6"
  shows "strip_prefix (js ''Nonce:'') (q @ js ''Nonce:'' @ y) = None"
proof -
  have "strip_prefix (js ''Nonce:'') (q @ js ''Nonce:'' @ y) = Some r \<Longrightarrow> False" for r
  proof -
    assume "strip_prefix (js ''Nonce:'') (q @ js ''Nonce:'' @ y) = Some r"
    then have eq: "q @ js ''Nonce:'' @ y = js ''Nonce:'' @ r"
      by (simp add: strip_prefix_Some_iff)
    have "(q @ js ''Nonce:'' @ y) ! length q = 78"
      by (simp add: NONCE_eq nth_append)
    moreover have "length (js ''Nonce:'') = 6"
      by (simp add: js_def)
    then have "(js ''Nonce:'' @ r) ! length q = js ''Nonce:'' ! length q"
      using assms(2) by (simp add: nth_append)
    moreover have "js ''Nonce:'' ! i \<noteq> 78" if "0 < i" "i < 6" for i
    proof -
      from that have "i = 1 \<or> i = 2 \<or> i = 3 \<or> i = 4 \<or> i = 5" by arith
      then show ?thesis by (auto simp: NONCE_eq)
    qed
    ultimately show False using assms eq by (metis length_greater_0_conv)
  qed
  then show ?thesis by (cases "strip_prefix (js ''Nonce:'') (q @ js ''Nonce:'' @ y)") auto
qed

lemma match_here_extend_None:
  assumes "match_here q = None" "q \<noteq> []"
  shows "match_here (q @ js ''Nonce:'' @ y) = None"
proof (cases "length q < 6")
  case True
  with assms(2) show ?thesis by (simp add: match_here_def strip_prefix_short)
next
  case False
  then have len: "length (js ''Nonce:'') \<le> length q" by (simp add: NONCE_eq)
  show ?thesis
  proof (cases "strip_prefix (js ''Nonce:'') q")
    case None
    then show ?thesis by (simp add: match_here_def strip_prefix_long[OF len])
  next
    case (Some rest)
    with assms(1) have nd: "takeWhile is_digit (dropWhile is_space rest) = []"
      by (simp add: match_here_def Let_def split: if_splits)
    have "takeWhile is_digit (dropWhile is_space (rest @ js ''Nonce:'' @ y)) = []"
    proof (cases "\<forall>c\<in>set rest. is_space c")
      case True
      then show ?thesis by (simp add: NONCE_eq N_not_space)
    next
      case False
      then have "dropWhile is_space rest \<noteq> []" by auto
      with nd have "\<not> is_digit (hd (dropWhile is_space rest))"
        by (metis takeWhile_eq_Nil_iff)
      moreover have "dropWhile is_space (rest @ js ''Nonce:'' @ y)
          = dropWhile is_space rest @ js ''Nonce:'' @ y"
      proof -
        from False obtain x where "x \<in> set rest" "\<not> is_space x" by blast
        then show ?thesis by (rule dropWhile_append1)
      qed
      ultimately show ?thesis
        using \<open>dropWhile is_space rest \<noteq> []\<close> by (simp add: takeWhile_eq_Nil_iff)
    qed
    with Some show ?thesis by (simp add: match_here_def strip_prefix_long[OF len])
  qed
qed

lemma nonce_match_first:
  assumes "nonce_match p = None" "list_all is_space ws" "ds \<noteq> []" "list_all is_digit ds"
    "r = [] \<or> \<not> is_digit (hd r)"
  shows "nonce_match (p @ js ''Nonce:'' @ ws @ ds @ r) = Some ds"
  using assms(1)
proof (induction p)
  case Nil
  have "match_here (js ''Nonce:'' @ ws @ ds @ r) = Some ds"
    using assms(2-5) by (rule match_here_exact)
  then show ?case by (simp add: NONCE_eq)
next
  case (Cons c p)
  then have "match_here (c # p) = None" "nonce_match p = None"
    by (auto split: option.splits)
  then show ?case
    using Cons.IH match_here_extend_None[of "c # p" "ws @ ds @ r"] by simp
qed

lemma final_line_split: "before_final_line m @ final_line m = m"
  unfolding before_final_line_def final_line_def
  by (metis rev_append rev_rev_ident takeWhile_dropWhile_id)

lemma final_line_nonce_decompose:
  assumes "final_line_nonce m = Some n"
  shows "\<exists>ws ds. m = before_final_line m @ js ''Nonce:'' @ ws @ ds \<and> list_all is_space ws \<and> ds \<noteq> []
            \<and> list_all is_digit ds \<and> n = parseInt ds"
proof -
  from assms obtain rest where fl: "final_line m = js ''Nonce:'' @ rest"
    and ds: "dropWhile is_space rest \<noteq> []" "list_all is_digit (dropWhile is_space rest)"
      "n = parseInt (dropWhile is_space rest)"
    by (auto simp: final_line_nonce_def Let_def strip_prefix_Some_iff split: option.splits if_splits)
  have "rest = takeWhile is_space rest @ dropWhile is_space rest" by simp
  moreover have "list_all is_space (takeWhile is_space rest)"
    by (auto simp: list_all_iff dest: set_takeWhileD)
  ultimately show ?thesis using fl ds final_line_split[of m] by metis
qed

lemma has_nonce_pattern_iff: "has_nonce_pattern m \<longleftrightarrow> nonce_match m \<noteq> None"
  unfolding has_nonce_pattern_def nonce_match_None_iff by (rule not_not[symmetric])

lemma verifySignature_no_match:
  "nonce_match msg = None \<Longrightarrow>
   verifySignature now recover msg sg =
     Inr \<lparr>valid = False, address = None, error = Some (js ''Message missing nonce'')\<rparr>"
  by (simp add: verifySignature_def try_catch_def)

lemma verifySignature_match:
  "nonce_match msg = Some ds \<Longrightarrow>
   verifySignature now recover msg sg =
     verify_with_nonce now recover msg sg (parseInt ds)"
  by (simp add: verifySignature_def verify_with_nonce_def try_catch_def SIGNATURE_EXPIRY_MS_def Let_def
      split: sum.splits)

lemma two_nonce_match: "nonce_match two_nonce_message = Some (js ''1'')"
  by (simp add: two_nonce_message_def js_def match_here_def is_digit_def is_space_def)

lemma two_nonce_final: "final_line_nonce two_nonce_message = Some 1700000000000"
  by (simp add: two_nonce_message_def final_line_nonce_def final_line_def js_def is_digit_def is_space_def parseInt_def)

lemma plain_before: "nonce_match (before_final_line plain_message) = None"
  by (simp add: plain_message_def before_final_line_def js_def match_here_def is_digit_def is_space_def)
lemma plain_final: "final_line_nonce plain_message = Some 1700000000000"
  by (simp add: plain_message_def final_line_nonce_def final_line_def js_def is_digit_def is_space_def parseInt_def)

lemma plain_match: "nonce_match plain_message = Some (js ''1700000000000'')"
  by (simp add: plain_message_def js_def match_here_def is_digit_def is_space_def)

lemma parse_plain: "parseInt (js ''1700000000000'') = 1700000000000"
  by (simp add: parseInt_def js_def)

lemma no_pattern_hello: "\<not> has_nonce_pattern (js ''Update SIP'')"
  by (simp add: has_nonce_pattern_iff js_def match_here_def)

lemma plain_no_pattern: "\<not> has_nonce_pattern (before_final_line plain_message)"
  by (simp add: has_nonce_pattern_iff plain_before)

section \<open>Claims about signature verification\<close>

text \<open>
  C2, as stated, fails. The claim says that the nonce of a message whose final line is
  \<open>Nonce: <digits>\<close> is the integer on that line, whatever an earlier parameter value
  contains. The final line of \<open>two_nonce_message\<close> carries the nonce 1700000000000, with
  which the message is fresh at that instant and the signer is recovered; the code
  takes the 1 of the parameter line and answers that the signature has expired.
\<close>

theorem C2_counterexample:
  "final_line_nonce two_nonce_message = Some 1700000000000
   \<and> verifySignature 1700000000000 recover_any two_nonce_message (js ''0x1b'')
       = Inr \<lparr>valid = False, address = None, error = Some (js ''Signature expired'')\<rparr>
   \<and> verify_with_nonce 1700000000000 recover_any two_nonce_message (js ''0x1b'') 1700000000000
       = Inr \<lparr>valid = True, address = Some (js ''0xA11CE''), error = None\<rparr>"
  by (simp add: two_nonce_final verifySignature_match[OF two_nonce_match] verify_with_nonce_def
      recover_any_def parseInt_def js_def)

text \<open>
  C2, amended: \<open>verifySignature\<close> takes the nonce from the first (leftmost) match of
  \<open>Nonce:\s*(\d+)\<close> anywhere in the message. A message with no match fails with the
  missing-nonce error. For a message whose final line is \<open>Nonce: <digits>\<close> and whose
  text before that line has no match, the nonce of the freshness check is the integer
  on the final line. In general the digits of the earliest match are the nonce, also
  when a later line holds another one.
\<close>

theorem C2_first_match:
  "(\<not> has_nonce_pattern msg \<longrightarrow>
      verifySignature now recover msg sg =
        Inr \<lparr>valid = False, address = None, error = Some (js ''Message missing nonce'')\<rparr>)
   \<and> (final_line_nonce msg = Some n \<and> \<not> has_nonce_pattern (before_final_line msg) \<longrightarrow>
      verifySignature now recover msg sg =
        verify_with_nonce now recover msg sg n)
   \<and> (msg = p @ js ''Nonce:'' @ ws @ ds @ r \<and> \<not> has_nonce_pattern p \<and> list_all is_space ws
        \<and> ds \<noteq> [] \<and> list_all is_digit ds \<and> (r = [] \<or> \<not> is_digit (hd r)) \<longrightarrow>
      verifySignature now recover msg sg =
        verify_with_nonce now recover msg sg (parseInt ds))"
proof (intro conjI impI)
  assume "\<not> has_nonce_pattern msg"
  then show "verifySignature now recover msg sg =
        Inr \<lparr>valid = False, address = None, error = Some (js ''Message missing nonce'')\<rparr>"
    by (simp add: has_nonce_pattern_iff verifySignature_no_match)
next
  assume a: "final_line_nonce msg = Some n \<and> \<not> has_nonce_pattern (before_final_line msg)"
  then obtain ws' ds' where m: "msg = before_final_line msg @ js ''Nonce:'' @ ws' @ ds' @ []"
    and *: "list_all is_space ws'" "ds' \<noteq> []" "list_all is_digit ds'" "n = parseInt ds'"
    using final_line_nonce_decompose[of msg n] by auto
  from a have "nonce_match (before_final_line msg) = None"
    by (simp add: has_nonce_pattern_iff)
  then have "nonce_match (before_final_line msg @ js ''Nonce:'' @ ws' @ ds' @ []) = Some ds'"
    using * by (intro nonce_match_first) simp_all
  with m have "nonce_match msg = Some ds'" by simp
  then show "verifySignature now recover msg sg =
        verify_with_nonce now recover msg sg n"
    using * by (simp add: verifySignature_match)
next
  assume a: "msg = p @ js ''Nonce:'' @ ws @ ds @ r \<and> \<not> has_nonce_pattern p \<and> list_all is_space ws
        \<and> ds \<noteq> [] \<and> list_all is_digit ds \<and> (r = [] \<or> \<not> is_digit (hd r))"
  then have "nonce_match p = None" by (simp add: has_nonce_pattern_iff)
  with a have "nonce_match msg = Some ds"
    using nonce_match_first[of p ws ds r] by blast
  then show "verifySignature now recover msg sg =
        verify_with_nonce now recover msg sg (parseInt ds)"
    by (rule verifySignature_match)
qed

text \<open>
  C2, witness of the amended statement: a message without the pattern, the message in
  the wire format at the instant of its nonce, and a message whose first match is stale.
\<close>

theorem C2_first_match_witness:
  "verifySignature 1700000000000 recover_any (js ''Update SIP'') (js ''0x1b'') =
        Inr \<lparr>valid = False, address = None, error = Some (js ''Message missing nonce'')\<rparr>
   \<and> verifySignature 1700000000000 recover_any plain_message (js ''0x1b'')
        = Inr \<lparr>valid = True, address = Some (js ''0xA11CE''), error = None\<rparr>
   \<and> verifySignature 1700000000000 recover_any (js ''Nonce: 1, Nonce: 1700000000000'') (js ''0x1b'')
        = Inr \<lparr>valid = False, address = None, error = Some (js ''Signature expired'')\<rparr>"
proof -
  have h3: "js ''Nonce: 1, Nonce: 1700000000000'' = [] @ js ''Nonce:'' @ js '' '' @ js ''1'' @ js '', Nonce: 1700000000000''
      \<and> \<not> has_nonce_pattern [] \<and> list_all is_space (js '' '') \<and> js ''1'' \<noteq> [] \<and> list_all is_digit (js ''1'')
      \<and> (js '', Nonce: 1700000000000'' = [] \<or> \<not> is_digit (hd (js '', Nonce: 1700000000000'')))"
    by (simp add: has_nonce_pattern_iff js_def is_space_def is_digit_def)
  show ?thesis
    using C2_first_match[of "js ''Update SIP''" 1700000000000 recover_any "js ''0x1b''" 0 "[]" "[]" "[]" "[]"]
      C2_first_match[of plain_message 1700000000000 recover_any "js ''0x1b''" 1700000000000 "[]" "[]" "[]" "[]"]
      C2_first_match[of "js ''Nonce: 1, Nonce: 1700000000000''" 1700000000000 recover_any "js ''0x1b''" 0
        "[]" "js '' ''" "js ''1''" "js '', Nonce: 1700000000000''"]
      no_pattern_hello plain_no_pattern plain_final h3
    by (simp add: verify_with_nonce_def recover_any_def parseInt_def js_def)
qed

text \<open>
  C3: when the nonce that the code extracts makes \<open>now - nonce\<close> exceed 60000, the result
  is the expiry error; at exactly 60000 the message is not rejected for expiry, and the
  result is that of the recovery.
\<close>

theorem C3_expiry_boundary:
  "nonce_match msg = Some ds \<Longrightarrow>
   (now - parseInt ds > 60000 \<longrightarrow>
      verifySignature now recover msg sg =
        Inr \<lparr>valid = False, address = None, error = Some (js ''Signature expired'')\<rparr>)
   \<and> (now - parseInt ds = 60000 \<longrightarrow>
      verifySignature now recover msg sg =
        (case recover msg sg of
           Inl e \<Rightarrow> Inr \<lparr>valid = False, address = None,
                         error = Some (js ''Signature verification failed'')\<rparr>
         | Inr a \<Rightarrow> Inr \<lparr>valid = True, address = Some a, error = None\<rparr>))"
  by (simp add: verifySignature_match verify_with_nonce_def)

text \<open>C3, witness: the wire-format message 60001 ms and 60000 ms after its nonce.\<close>

theorem C3_expiry_boundary_witness:
  "verifySignature 1700000060001 recover_any plain_message (js ''0x1b'') =
        Inr \<lparr>valid = False, address = None, error = Some (js ''Signature expired'')\<rparr>
   \<and> verifySignature 1700000060000 recover_any plain_message (js ''0x1b'') =
        Inr \<lparr>valid = True, address = Some (js ''0xA11CE''), error = None\<rparr>"
  using C3_expiry_boundary[OF plain_match, of 1700000060001 recover_any "js ''0x1b''"]
    C3_expiry_boundary[OF plain_match, of 1700000060000 recover_any "js ''0x1b''"]
  by (simp add: parse_plain recover_any_def)

text \<open>
  C4: when the extracted nonce is more than 5000 ms ahead of the clock
  (\<open>now - nonce < -5000\<close>) the result is the future-nonce error; at 4999 ms ahead the
  freshness checks pass and the result is that of the recovery. The expiry check comes
  first: an expired message never gets the future-nonce error.
\<close>

theorem C4_future_nonce:
  "nonce_match msg = Some ds \<Longrightarrow>
   (now - parseInt ds < - 5000 \<longrightarrow>
      verifySignature now recover msg sg =
        Inr \<lparr>valid = False, address = None, error = Some (js ''Invalid nonce timestamp'')\<rparr>)
   \<and> (now - parseInt ds = - 4999 \<longrightarrow>
      verifySignature now recover msg sg =
        (case recover msg sg of
           Inl e \<Rightarrow> Inr \<lparr>valid = False, address = None,
                         error = Some (js ''Signature verification failed'')\<rparr>
         | Inr a \<Rightarrow> Inr \<lparr>valid = True, address = Some a, error = None\<rparr>))
   \<and> (now - parseInt ds > 60000 \<longrightarrow>
      verifySignature now recover msg sg \<noteq>
        Inr \<lparr>valid = False, address = None, error = Some (js ''Invalid nonce timestamp'')\<rparr>)"
  by (simp add: verifySignature_match verify_with_nonce_def js_def)

text \<open>C4, witness: the wire-format message 5001 ms and 4999 ms before its nonce, and 60001 ms after it.\<close>

theorem C4_future_nonce_witness:
  "verifySignature 1699999994999 recover_any plain_message (js ''0x1b'') =
        Inr \<lparr>valid = False, address = None, error = Some (js ''Invalid nonce timestamp'')\<rparr>
   \<and> verifySignature 1699999995001 recover_any plain_message (js ''0x1b'') =
        Inr \<lparr>valid = True, address = Some (js ''0xA11CE''), error = None\<rparr>
   \<and> verifySignature 1700000060001 recover_any plain_message (js ''0x1b'') \<noteq>
        Inr \<lparr>valid = False, address = None, error = Some (js ''Invalid nonce timestamp'')\<rparr>"
  using C4_future_nonce[OF plain_match, of 1699999994999 recover_any "js ''0x1b''"]
    C4_future_nonce[OF plain_match, of 1699999995001 recover_any "js ''0x1b''"]
    C4_future_nonce[OF plain_match, of 1700000060001 recover_any "js ''0x1b''"]
  by (simp add: parse_plain recover_any_def)

text \<open>
  C10: for every message and signature \<open>verifySignature\<close> returns a result and does not
  throw; a result with \<open>valid = true\<close> carries the address that the recovery returned; an
  exception of the recovery, reached after the freshness checks, becomes
  \<open>{valid: false}\<close> with the verification-failed error.
\<close>

theorem C10_never_throws:
  "(\<exists>r. verifySignature now recover msg sg = Inr r
        \<and> (valid r \<longrightarrow> (\<exists>a. VerifySignatureResult.address r = Some a
                               \<and> recover msg sg = Inr a)))
   \<and> (recover msg sg = Inl e \<and> nonce_match msg = Some ds
        \<and> now - parseInt ds \<le> 60000 \<and> - 5000 \<le> now - parseInt ds \<longrightarrow>
      verifySignature now recover msg sg =
        Inr \<lparr>valid = False, address = None, error = Some (js ''Signature verification failed'')\<rparr>)"
proof (cases "nonce_match msg")
  case None
  then show ?thesis by (simp add: verifySignature_no_match)
next
  case (Some ds')
  then show ?thesis
    by (auto simp: verifySignature_match verify_with_nonce_def split: sum.splits)
qed

text \<open>C10, witness: a recovery that throws and one that returns an address, on a fresh message.\<close>

theorem C10_never_throws_witness:
  "verifySignature 1700000000000 recover_none plain_message (js ''0x'') =
        Inr \<lparr>valid = False, address = None, error = Some (js ''Signature verification failed'')\<rparr>
   \<and> (\<exists>r. verifySignature 1700000000000 recover_any plain_message (js ''0x1b'') = Inr r
         \<and> valid r \<and> VerifySignatureResult.address r = Some (js ''0xA11CE''))"
proof -
  have "recover_none plain_message (js ''0x'') = Inl (Error (js ''invalid signature length''))
        \<and> nonce_match plain_message = Some (js ''1700000000000'')
        \<and> 1700000000000 - parseInt (js ''1700000000000'') \<le> 60000
        \<and> - 5000 \<le> 1700000000000 - parseInt (js ''1700000000000'')"
    by (simp add: recover_none_def plain_match parse_plain)
  moreover have "verifySignature 1700000000000 recover_any plain_message (js ''0x1b'')
      = Inr \<lparr>valid = True, address = Some (js ''0xA11CE''), error = None\<rparr>"
    by (simp add: verifySignature_match[OF plain_match] verify_with_nonce_def parse_plain recover_any_def)
  ultimately show ?thesis
    using C10_never_throws[of 1700000000000 recover_none plain_message "js ''0x''"
        "Error (js ''invalid signature length'')" "js ''1700000000000''"]
      C10_never_throws[of 1700000000000 recover_any plain_message "js ''0x1b''"
        "Error []" "[]"]
    by simp
qed

section \<open>Properties of the plan store and the request handler\<close>

lemma find_map_write:
  assumes "\<And>row. SIP.id' (w row) = SIP.id' row"
  shows "find (\<lambda>row. SIP.id' row = sipId) (map (\<lambda>row. if SIP.id' row = sipId then w row else row) rows)
         = map_option w (find (\<lambda>row. SIP.id' row = sipId) rows)"
  by (induction rows) (auto simp: assms)

lemma db_updateSIPStatus_refused:
  "db_updateSIPStatus False now sipId status' d = (False, d)"
  by (simp add: db_updateSIPStatus_def)

lemma db_updateSIPStatus_served:
  assumes "list_all sips_check (sips d)" "status' \<in> {js ''active'', js ''paused'', js ''cancelled''}"
  shows "db_updateSIPStatus True now sipId status' d =
           (True, d\<lparr>sips := map (\<lambda>row. if SIP.id' row = sipId
                                       then row\<lparr>status := status', updated_at := now\<rparr> else row) (sips d)\<rparr>)"
proof -
  have "sips_check (row\<lparr>status := status', updated_at := now\<rparr>)" if "sips_check row" for row
    using that assms(2) by (simp add: sips_check_def)
  then have "list_all (\<lambda>row. sips_check (row\<lparr>status := status', updated_at := now\<rparr>))
               (filter (\<lambda>row. SIP.id' row = sipId) (sips d))"
    using assms(1) by (simp add: list_all_iff)
  then show ?thesis by (simp add: db_updateSIPStatus_def)
qed

lemma status_of_updated:
  assumes "list_all sips_check (sips d)" "status' \<in> {js ''active'', js ''paused'', js ''cancelled''}"
    "status_of d sipId \<noteq> None"
  shows "status_of (snd (db_updateSIPStatus True now sipId status' d)) sipId = Some status'"
proof -
  from assms(3) obtain row where "find (\<lambda>row. SIP.id' row = sipId) (sips d) = Some row"
    by (auto simp: status_of_def)
  then show ?thesis
    by (simp add: db_updateSIPStatus_served[OF assms(1,2)] status_of_def find_map_write)
qed

lemma updateSIPStatus_served:
  assumes "list_all sips_check (sips d)" "status' \<in> {js ''active'', js ''paused'', js ''cancelled''}"
  shows "updateSIPStatus True now sipId status' d =
     (\<lparr>success = True, sip = None,
        message = Some (js ''SIP '' @ (if status' = js ''active'' then js ''resumed'' else status')),
        error = None\<rparr>, snd (db_updateSIPStatus True now sipId status' d))"
  by (simp add: updateSIPStatus_def db_updateSIPStatus_served[OF assms])

lemma updateSIPStatus_refused:
  "updateSIPStatus False now sipId status' d =
     (\<lparr>success = False, sip = None, message = None,
        error = Some (js ''Failed to update SIP status'')\<rparr>, d)"
  by (simp add: updateSIPStatus_def db_updateSIPStatus_refused)

lemma cancelled_db_check: "list_all sips_check (sips cancelled_db)"
  by (simp add: cancelled_db_def cancelled_plan_def sips_check_def)

lemma cancelled_db_status: "status_of cancelled_db (js ''p1'') = Some (js ''cancelled'')"
  by (simp add: cancelled_db_def cancelled_plan_def status_of_def)

lemma active_valid: "js ''active'' \<in> {js ''active'', js ''paused'', js ''cancelled''}"
  by simp

lemma PATCH_authenticated:
  assumes "body ''sipId'' = Some sipId" "sipId \<noteq> []" "body ''status'' = Some status'" "status' \<noteq> []"
    and "body ''message'' = Some msg" "msg \<noteq> []" "body ''signature'' = Some sg" "sg \<noteq> []"
    and "verifySignature clock recover msg sg = Inr verifyResult" "valid verifyResult"
  shows "PATCH clock recover served now (Inr body) d =
           (case updateSIPStatus served now sipId status' d of
              (result, d') \<Rightarrow>
                (if success result then \<lparr>http_status = 200, json = ResultJson result\<rparr>
                 else \<lparr>http_status = 500, json = ErrorJson (error result)\<rparr>, d'))"
  using assms by (simp add: PATCH_def falsy_def split: prod.splits)

lemma plain_valid:
  "verifySignature 1700000000000 recover_any plain_message (js ''0x1b'')
     = Inr \<lparr>valid = True, address = Some (js ''0xA11CE''), error = None\<rparr>"
  by (simp add: verifySignature_match[OF plain_match] verify_with_nonce_def parse_plain recover_any_def)

lemma plain_nonempty: "plain_message \<noteq> []"
  by (simp add: plain_message_def js_def)

lemma js_nonempty: "js (c # cs) \<noteq> []"
  by (simp add: js_def)

section \<open>Claims about the plan lifecycle\<close>

text \<open>
  C1, as stated, fails. The claim says that a request to move a cancelled plan to
  \<open>active\<close> or \<open>paused\<close> is rejected and the plan stays cancelled. On a store whose plan
  \<open>p1\<close> is cancelled, \<open>updateSIPStatus\<close> with \<open>active\<close> reports success and the plan is active
  afterwards.
\<close>

theorem C1_counterexample:
  "status_of cancelled_db (js ''p1'') = Some (js ''cancelled'')
   \<and> success (fst (updateSIPStatus True (js ''2025-02-01T00:00:00Z'') (js ''p1'') (js ''active'') cancelled_db))
   \<and> status_of (snd (updateSIPStatus True (js ''2025-02-01T00:00:00Z'') (js ''p1'') (js ''active'') cancelled_db))
        (js ''p1'') = Some (js ''active'')"
  using status_of_updated[OF cancelled_db_check active_valid, of "js ''p1''" "js ''2025-02-01T00:00:00Z''"]
  by (simp add: cancelled_db_status updateSIPStatus_served[OF cancelled_db_check active_valid])

text \<open>
  C1, amended: \<open>updateSIPStatus\<close> does not look at the current status. For every plan
  whose current status is cancelled, in a store that satisfies the constraints of its
  schema, a request to any status in {active, paused} succeeds whenever the store
  applies the update, and the plan's status becomes the requested one; the request
  fails, and the store with the cancelled plan is unchanged, only when the store
  answers the update with an error. Cancelled is not a terminal state in the code.
\<close>

theorem C1_overwrites_cancelled:
  assumes "status_of d sipId = Some (js ''cancelled'')"
    and "list_all sips_check (sips d)"
    and "status' \<in> {js ''active'', js ''paused''}"
  shows "(served \<longrightarrow>
           success (fst (updateSIPStatus served now sipId status' d))
           \<and> status_of (snd (updateSIPStatus served now sipId status' d)) sipId = Some status')
       \<and> (\<not> served \<longrightarrow>
           \<not> success (fst (updateSIPStatus served now sipId status' d))
           \<and> snd (updateSIPStatus served now sipId status' d) = d)"
proof -
  from assms(3) have v: "status' \<in> {js ''active'', js ''paused'', js ''cancelled''}" by auto
  from assms(1) have "status_of d sipId \<noteq> None" by simp
  then show ?thesis
    using status_of_updated[OF assms(2) v, of sipId now]
    by (cases served) (simp_all add: updateSIPStatus_served[OF assms(2) v] updateSIPStatus_refused)
qed

text \<open>C1, witness: pausing the cancelled plan \<open>p1\<close>, with the store answering and with the store failing.\<close>

theorem C1_overwrites_cancelled_witness:
  "success (fst (updateSIPStatus True (js ''2025-02-01T00:00:00Z'') (js ''p1'') (js ''paused'') cancelled_db))
   \<and> status_of (snd (updateSIPStatus True (js ''2025-02-01T00:00:00Z'') (js ''p1'') (js ''paused'') cancelled_db))
        (js ''p1'') = Some (js ''paused'')
   \<and> \<not> success (fst (updateSIPStatus False (js ''2025-02-01T00:00:00Z'') (js ''p1'') (js ''paused'') cancelled_db))
   \<and> snd (updateSIPStatus False (js ''2025-02-01T00:00:00Z'') (js ''p1'') (js ''paused'') cancelled_db) = cancelled_db"
proof -
  have p: "js ''paused'' \<in> {js ''active'', js ''paused''}" by simp
  show ?thesis
    using C1_overwrites_cancelled[OF cancelled_db_status cancelled_db_check p, of True "js ''2025-02-01T00:00:00Z''"]
      C1_overwrites_cancelled[OF cancelled_db_status cancelled_db_check p, of False "js ''2025-02-01T00:00:00Z''"]
    by simp
qed

text \<open>
  C6: the PATCH handler never compares the parameters of the signed message with the
  body. For two bodies that carry the same message and signature, valid and fresh at
  the time of the request, and any non-empty plan identifiers and statuses,
  authentication succeeds in both runs and each response and each new store is that of
  \<open>updateSIPStatus\<close> on the identifier and the status of the body; when the store
  applies the update to an existing plan, the plan named by the body gets the status
  named by the body, whatever plan and status the signed message names.
\<close>

theorem C6_one_signature_any_plan:
  assumes "body1 ''message'' = Some msg" "body1 ''signature'' = Some sg"
    and "body2 ''message'' = Some msg" "body2 ''signature'' = Some sg"
    and "msg \<noteq> []" "sg \<noteq> []"
    and "verifySignature clock recover msg sg = Inr verifyResult" "valid verifyResult"
    and "body1 ''sipId'' = Some sipId1" "sipId1 \<noteq> []" "body1 ''status'' = Some status1" "status1 \<noteq> []"
    and "body2 ''sipId'' = Some sipId2" "sipId2 \<noteq> []" "body2 ''status'' = Some status2" "status2 \<noteq> []"
  shows "PATCH clock recover served now (Inr body1) d =
           (case updateSIPStatus served now sipId1 status1 d of
              (result, d') \<Rightarrow>
                (if success result then \<lparr>http_status = 200, json = ResultJson result\<rparr>
                 else \<lparr>http_status = 500, json = ErrorJson (error result)\<rparr>, d'))
       \<and> PATCH clock recover served now (Inr body2) d =
           (case updateSIPStatus served now sipId2 status2 d of
              (result, d') \<Rightarrow>
                (if success result then \<lparr>http_status = 200, json = ResultJson result\<rparr>
                 else \<lparr>http_status = 500, json = ErrorJson (error result)\<rparr>, d'))
       \<and> (served \<and> list_all sips_check (sips d)
            \<and> status2 \<in> {js ''active'', js ''paused'', js ''cancelled''}
            \<and> status_of d sipId2 \<noteq> None \<longrightarrow>
          http_status (fst (PATCH clock recover served now (Inr body2) d)) = 200
          \<and> status_of (snd (PATCH clock recover served now (Inr body2) d)) sipId2 = Some status2)"
proof (intro conjI impI)
  show "PATCH clock recover served now (Inr body1) d =
           (case updateSIPStatus served now sipId1 status1 d of
              (result, d') \<Rightarrow>
                (if success result then \<lparr>http_status = 200, json = ResultJson result\<rparr>
                 else \<lparr>http_status = 500, json = ErrorJson (error result)\<rparr>, d'))"
    using assms by (intro PATCH_authenticated) simp_all
  show p2: "PATCH clock recover served now (Inr body2) d =
           (case updateSIPStatus served now sipId2 status2 d of
              (result, d') \<Rightarrow>
                (if success result then \<lparr>http_status = 200, json = ResultJson result\<rparr>
                 else \<lparr>http_status = 500, json = ErrorJson (error result)\<rparr>, d'))"
    using assms by (intro PATCH_authenticated) simp_all
  assume a: "served \<and> list_all sips_check (sips d)
            \<and> status2 \<in> {js ''active'', js ''paused'', js ''cancelled''}
            \<and> status_of d sipId2 \<noteq> None"
  then have s: "served = True" and c: "list_all sips_check (sips d)"
    and v: "status2 \<in> {js ''active'', js ''paused'', js ''cancelled''}" and e: "status_of d sipId2 \<noteq> None"
    by simp_all
  show "http_status (fst (PATCH clock recover served now (Inr body2) d)) = 200"
    using p2 s by (simp add: updateSIPStatus_served[OF c v])
  show "status_of (snd (PATCH clock recover served now (Inr body2) d)) sipId2 = Some status2"
    using p2 s status_of_updated[OF c v e, of now]
    by (simp add: updateSIPStatus_served[OF c v])
qed

text \<open>
  C6, witness: the signed message names plan 7 and the status \<open>active\<close>; with it one body
  pauses \<open>p2\<close> and the other resumes the cancelled plan \<open>p1\<close>, which is active afterwards.
\<close>

theorem C6_one_signature_any_plan_witness:
  "http_status (fst (PATCH 1700000000000 recover_any True (js ''2025-02-01T00:00:00Z'') (Inr resume_body) cancelled_db)) = 200
   \<and> status_of (snd (PATCH 1700000000000 recover_any True (js ''2025-02-01T00:00:00Z'') (Inr resume_body) cancelled_db))
        (js ''p1'') = Some (js ''active'')"
proof -
  have b1: "pause_body ''message'' = Some plain_message" "pause_body ''signature'' = Some (js ''0x1b'')"
    "pause_body ''sipId'' = Some (js ''p2'')" "pause_body ''status'' = Some (js ''paused'')"
    by (simp_all add: pause_body_def)
  have b2: "resume_body ''message'' = Some plain_message" "resume_body ''signature'' = Some (js ''0x1b'')"
    "resume_body ''sipId'' = Some (js ''p1'')" "resume_body ''status'' = Some (js ''active'')"
    by (simp_all add: resume_body_def)
  have v: "valid \<lparr>valid = True, address = Some (js ''0xA11CE''), error = None\<rparr>" by simp
  have h: "True \<and> list_all sips_check (sips cancelled_db)
            \<and> js ''active'' \<in> {js ''active'', js ''paused'', js ''cancelled''}
            \<and> status_of cancelled_db (js ''p1'') \<noteq> None"
    by (simp add: cancelled_db_check cancelled_db_status)
  from C6_one_signature_any_plan[OF b1(1,2) b2(1,2) plain_nonempty js_nonempty plain_valid v
      b1(3) js_nonempty b1(4) js_nonempty b2(3) js_nonempty b2(4) js_nonempty,
      of True "js ''2025-02-01T00:00:00Z''" cancelled_db] h
  show ?thesis by blast
qed

text \<open>
  C7: \<open>createSIP\<close> fails with the below-minimum error whenever the monthly amount is
  below 1000, and leaves the store as it was; at exactly 1000, when the user is
  resolved and the plan is persisted, it succeeds and returns the created record,
  whose status is \<open>active\<close> and which is the newest row of the store.
\<close>

theorem C7_minimum_amount:
  "(monthlyAmountUsdc params < 1000 \<longrightarrow>
      createSIP answer1 answer2 params d =
        (\<lparr>success = False, sip = None, message = None,
           error = Some (js ''Monthly investment must be at least 1000 USDC'')\<rparr>, d))
   \<and> (monthlyAmountUsdc params = 1000
        \<and> getUserByWallet answer1 (walletAddress params) d = (Some user, d1)
        \<and> db_createSIP answer2 (User.id' user) (assetName params) (assetIndex params)
              (monthlyAmountUsdc params) d1 = (Some row, d2) \<longrightarrow>
      createSIP answer1 answer2 params d =
        (\<lparr>success = True, sip = Some row, message = Some (js ''SIP created successfully''),
           error = None\<rparr>, d2)
      \<and> status row = js ''active'' \<and> monthly_amount_usdc row = 1000
      \<and> sips d2 = sips d1 @ [row])"
  by (auto simp: createSIP_def db_createSIP_def Let_def split: reply.splits if_splits)

text \<open>C7, witness: 999 USDC is rejected on the empty store; 1000 USDC creates the user and an active plan.\<close>

theorem C7_minimum_amount_witness:
  "createSIP (Served (js ''u2'') (js ''2025-03-01T00:00:00Z'')) (Served (js ''p2'') (js ''2025-03-01T00:00:01Z''))
      (create_params\<lparr>monthlyAmountUsdc := 999\<rparr>) empty_db
     = (\<lparr>success = False, sip = None, message = None,
           error = Some (js ''Monthly investment must be at least 1000 USDC'')\<rparr>, empty_db)
   \<and> success (fst (createSIP (Served (js ''u2'') (js ''2025-03-01T00:00:00Z''))
        (Served (js ''p2'') (js ''2025-03-01T00:00:01Z'')) create_params empty_db))
   \<and> map status (sips (snd (createSIP (Served (js ''u2'') (js ''2025-03-01T00:00:00Z''))
        (Served (js ''p2'') (js ''2025-03-01T00:00:01Z'')) create_params empty_db))) = [js ''active'']"
proof -
  let ?u = "\<lparr>User.id' = js ''u2'', wallet_address = js ''0xB0B'', User.created_at = js ''2025-03-01T00:00:00Z''\<rparr>"
  let ?d1 = "\<lparr>users = [?u], sips = []\<rparr>"
  let ?row = "\<lparr>id' = js ''p2'', user_id = js ''u2'', asset_name = js ''BTC'', asset_index = 3,
      monthly_amount_usdc = 1000, status = js ''active'',
      created_at = js ''2025-03-01T00:00:01Z'', updated_at = js ''2025-03-01T00:00:01Z''\<rparr>"
  have h1: "monthlyAmountUsdc (create_params\<lparr>monthlyAmountUsdc := 999\<rparr>) < 1000" by simp
  have h2: "monthlyAmountUsdc create_params = 1000
        \<and> getUserByWallet (Served (js ''u2'') (js ''2025-03-01T00:00:00Z'')) (walletAddress create_params) empty_db = (Some ?u, ?d1)
        \<and> db_createSIP (Served (js ''p2'') (js ''2025-03-01T00:00:01Z'')) (User.id' ?u) (assetName create_params) (assetIndex create_params)
              (monthlyAmountUsdc create_params) ?d1 = (Some ?row, ?d1\<lparr>sips := [?row]\<rparr>)"
    by (simp add: create_params_def empty_db_def getUserByWallet_def db_createSIP_def sips_check_def Let_def)
  note below = C7_minimum_amount[of "create_params\<lparr>monthlyAmountUsdc := 999\<rparr>"
        "Served (js ''u2'') (js ''2025-03-01T00:00:00Z'')" "Served (js ''p2'') (js ''2025-03-01T00:00:01Z'')" empty_db,
        THEN conjunct1, rule_format, OF h1]
  note at_min = C7_minimum_amount[of create_params
        "Served (js ''u2'') (js ''2025-03-01T00:00:00Z'')" "Served (js ''p2'') (js ''2025-03-01T00:00:01Z'')" empty_db
        ?u ?d1 ?row "?d1\<lparr>sips := [?row]\<rparr>", THEN conjunct2, rule_format, OF h2]
  show ?thesis
    using below at_min by simp
qed

section \<open>Properties of the key storage\<close>

lemma getOrCreate_existing:
  "getAgentPrivateKey window userAddress = Some key \<Longrightarrow> key \<noteq> [] \<Longrightarrow>
   getOrCreateAgentPrivateKey generated userAddress window = (Inr key, window)"
  by (simp add: getOrCreateAgentPrivateKey_def falsy_def)

lemma getOrCreate_fresh:
  "falsy (getAgentPrivateKey (Some storage) userAddress) \<Longrightarrow>
   getOrCreateAgentPrivateKey generated userAddress (Some storage)
     = (Inr generated, Some (storage(js ''agentPrivateKey-'' @ userAddress \<mapsto> generated)))"
  by (simp add: getOrCreateAgentPrivateKey_def saveAgentPrivateKey_def)

section \<open>Claims about agent provisioning\<close>

text \<open>
  C5, as stated, fails. The claim says that \<open>approveAgentIfNeeded\<close> never throws, for any
  state of the exchange client. Without a client, and with the agent not yet approved,
  it throws.
\<close>

theorem C5_counterexample:
  "approveAgentIfNeeded None (js ''0xA9E27'') False
     = (Inl (Error (js ''Exchange client not initialized'')), [])"
  by (simp add: approveAgentIfNeeded_def)

text \<open>
  C5, amended: \<open>approveAgentIfNeeded\<close> is a no-op when \<open>alreadyApproved\<close> is true: it
  returns normally and does not call the exchange. With \<open>alreadyApproved\<close> false and an
  exchange client at hand it returns normally whether the approval call succeeds or
  fails, and a failure of the call is surfaced as a warning on the console. With
  \<open>alreadyApproved\<close> false and no exchange client it throws
  \<open>Exchange client not initialized\<close>.
\<close>

theorem C5_approval_failure_is_warning:
  "(isApproved \<longrightarrow>
      approveAgentIfNeeded exchangeClient agentAddress isApproved
        = (Inr (), [ConsoleLog (js ''Agent already approved, skipping approval step'')]))
   \<and> (\<not> isApproved \<and> exchangeClient = Some client \<longrightarrow>
      fst (approveAgentIfNeeded exchangeClient agentAddress isApproved) = Inr ()
      \<and> (\<forall>e. approveAgent client agentAddress (js ''EzDawg Agent'') = Inl e \<longrightarrow>
            snd (approveAgentIfNeeded exchangeClient agentAddress isApproved)
              = [ApproveAgentCalled agentAddress (js ''EzDawg Agent''),
                 ConsoleWarn (js ''Agent approval failed (might already be approved):'')
                   (if message_of e \<noteq> [] then Text (message_of e) else Thrown e)]))
   \<and> (\<not> isApproved \<and> exchangeClient = None \<longrightarrow>
      approveAgentIfNeeded exchangeClient agentAddress isApproved
        = (Inl (Error (js ''Exchange client not initialized'')), []))"
  by (auto simp: approveAgentIfNeeded_def split: sum.splits)

text \<open>C5, witness: an approved agent, an exchange that rejects the approval, and no exchange client.\<close>

theorem C5_approval_failure_is_warning_witness:
  "approveAgentIfNeeded None (js ''0xA9E27'') True
        = (Inr (), [ConsoleLog (js ''Agent already approved, skipping approval step'')])
   \<and> approveAgentIfNeeded (Some rejecting_exchange) (js ''0xA9E27'') False
        = (Inr (), [ApproveAgentCalled (js ''0xA9E27'') (js ''EzDawg Agent''),
                    ConsoleWarn (js ''Agent approval failed (might already be approved):'')
                      (Text (js ''Extra agent already used''))])
   \<and> approveAgentIfNeeded None (js ''0xA9E27'') False
        = (Inl (Error (js ''Exchange client not initialized'')), [])"
proof -
  have r: "approveAgent rejecting_exchange (js ''0xA9E27'') (js ''EzDawg Agent'')
             = Inl (Error (js ''Extra agent already used''))"
    by (simp add: rejecting_exchange_def)
  have m: "message_of (Error (js ''Extra agent already used'')) \<noteq> []"
    by (simp add: js_def)
  note t = C5_approval_failure_is_warning[where isApproved = True and exchangeClient = None
      and agentAddress = "js ''0xA9E27''" and client = rejecting_exchange, THEN conjunct1]
  note w = C5_approval_failure_is_warning[where isApproved = False
      and exchangeClient = "Some rejecting_exchange"
      and agentAddress = "js ''0xA9E27''" and client = rejecting_exchange, THEN conjunct2, THEN conjunct1]
  note n = C5_approval_failure_is_warning[where isApproved = False and exchangeClient = None
      and agentAddress = "js ''0xA9E27''" and client = rejecting_exchange, THEN conjunct2, THEN conjunct2]
  have "fst (approveAgentIfNeeded (Some rejecting_exchange) (js ''0xA9E27'') False) = Inr ()"
    "snd (approveAgentIfNeeded (Some rejecting_exchange) (js ''0xA9E27'') False)
       = [ApproveAgentCalled (js ''0xA9E27'') (js ''EzDawg Agent''),
                    ConsoleWarn (js ''Agent approval failed (might already be approved):'')
                      (Text (js ''Extra agent already used''))]"
    using w r m by simp_all
  then have "approveAgentIfNeeded (Some rejecting_exchange) (js ''0xA9E27'') False
        = (Inr (), [ApproveAgentCalled (js ''0xA9E27'') (js ''EzDawg Agent''),
                    ConsoleWarn (js ''Agent approval failed (might already be approved):'')
                      (Text (js ''Extra agent already used''))])"
    by (simp add: prod_eq_iff)
  then show ?thesis using t n by simp
qed

text \<open>
  C8: \<open>checkAgentApproval\<close> never raises. It returns true exactly when there is a client,
  the query answers with a list of delegates, and the agent address is the address of
  a member of that list (compared as strings, as \<open>===\<close> does). Without a client, when the
  query throws and when it answers with no data, it returns false.
\<close>

theorem C8_approval_check:
  "(\<exists>b. fst (checkAgentApproval infoClient userAddress agentAddress) = Inr b)
   \<and> (fst (checkAgentApproval infoClient userAddress agentAddress) = Inr True \<longleftrightarrow>
        (\<exists>client resp. infoClient = Some client \<and> extraAgents client userAddress = Inr (Some resp)
            \<and> agentAddress \<in> set (map ExtraAgent.address resp)))
   \<and> (infoClient = None
        \<or> (\<exists>client. infoClient = Some client
              \<and> ((\<exists>e. extraAgents client userAddress = Inl e) \<or> extraAgents client userAddress = Inr None)) \<longrightarrow>
        fst (checkAgentApproval infoClient userAddress agentAddress) = Inr False)"
proof (cases infoClient)
  case None
  then show ?thesis by (auto simp: checkAgentApproval_def)
next
  case (Some client)
  show ?thesis
  proof (cases "extraAgents client userAddress")
    case (Inl e)
    with Some show ?thesis by (auto simp: checkAgentApproval_def)
  next
    case (Inr data)
    show ?thesis
    proof (cases data)
      case None
      with Some Inr show ?thesis by (auto simp: checkAgentApproval_def)
    next
      case (Some resp)
      have "(find (\<lambda>agent. ExtraAgent.address agent = agentAddress) resp \<noteq> None)
               \<longleftrightarrow> agentAddress \<in> set (map ExtraAgent.address resp)"
        by (induction resp) auto
      with \<open>infoClient = Some client\<close> Inr Some show ?thesis
        by (auto simp: checkAgentApproval_def)
    qed
  qed
qed

text \<open>C8, witness: no client, an unreachable exchange, an answer without data, and a list that holds the agent.\<close>

theorem C8_approval_check_witness:
  "fst (checkAgentApproval None (js ''0xA11CE'') (js ''0xA9E27'')) = Inr False
   \<and> fst (checkAgentApproval (Some unreachable_info) (js ''0xA11CE'') (js ''0xA9E27'')) = Inr False
   \<and> fst (checkAgentApproval (Some empty_info) (js ''0xA11CE'') (js ''0xA9E27'')) = Inr False
   \<and> fst (checkAgentApproval (Some listing_info) (js ''0xA11CE'') (js ''0xA9E27'')) = Inr True"
proof -
  note none = C8_approval_check[of None "js ''0xA11CE''" "js ''0xA9E27''", THEN conjunct2, THEN conjunct2, rule_format]
  note unr = C8_approval_check[of "Some unreachable_info" "js ''0xA11CE''" "js ''0xA9E27''", THEN conjunct2, THEN conjunct2, rule_format]
  note emp = C8_approval_check[of "Some empty_info" "js ''0xA11CE''" "js ''0xA9E27''", THEN conjunct2, THEN conjunct2, rule_format]
  note yes = C8_approval_check[of "Some listing_info" "js ''0xA11CE''" "js ''0xA9E27''", THEN conjunct2, THEN conjunct1]
  have 1: "fst (checkAgentApproval None (js ''0xA11CE'') (js ''0xA9E27'')) = Inr False"
    using none by simp
  have 2: "fst (checkAgentApproval (Some unreachable_info) (js ''0xA11CE'') (js ''0xA9E27'')) = Inr False"
    using unr by (simp add: unreachable_info_def)
  have 3: "fst (checkAgentApproval (Some empty_info) (js ''0xA11CE'') (js ''0xA9E27'')) = Inr False"
    using emp by (simp add: empty_info_def)
  have 4: "fst (checkAgentApproval (Some listing_info) (js ''0xA11CE'') (js ''0xA9E27'')) = Inr True"
    using yes by (simp add: listing_info_def)
  from 1 2 3 4 show ?thesis by simp
qed

text \<open>
  C9: in a browser, with a generator that returns non-empty keys, the first call of
  \<open>getOrCreateAgentPrivateKey\<close> for an address returns a key and leaves that key stored;
  a second call on the storage left by the first returns the same key, whatever the
  generator would produce then, and leaves the storage unchanged.
\<close>

theorem C9_get_or_create_idempotent:
  assumes "window = Some storage" and "generated1 \<noteq> []"
  shows "\<exists>key. fst (getOrCreateAgentPrivateKey generated1 userAddress window) = Inr key
           \<and> key \<noteq> []
           \<and> getAgentPrivateKey (snd (getOrCreateAgentPrivateKey generated1 userAddress window)) userAddress
               = Some key
           \<and> getOrCreateAgentPrivateKey generated2 userAddress
                (snd (getOrCreateAgentPrivateKey generated1 userAddress window))
               = (Inr key, snd (getOrCreateAgentPrivateKey generated1 userAddress window))"
proof (cases "falsy (getAgentPrivateKey (Some storage) userAddress)")
  case True
  let ?w = "Some (storage(js ''agentPrivateKey-'' @ userAddress \<mapsto> generated1))"
  have "getAgentPrivateKey ?w userAddress = Some generated1"
    by (simp add: getAgentPrivateKey_def)
  then show ?thesis
    using assms getOrCreate_fresh[OF True] getOrCreate_existing[of ?w userAddress generated1 generated2]
    by simp
next
  case False
  then obtain key where k: "getAgentPrivateKey (Some storage) userAddress = Some key" "key \<noteq> []"
    by (auto simp: falsy_def split: option.splits)
  then show ?thesis
    using assms getOrCreate_existing[OF k] by simp
qed

text \<open>C9, witness: two calls on an empty storage, the generator offering a different key the second time.\<close>

theorem C9_get_or_create_idempotent_witness:
  "fst (getOrCreateAgentPrivateKey (js ''0x5eed1'') (js ''0xA11CE'') empty_window) = Inr (js ''0x5eed1'')
   \<and> fst (getOrCreateAgentPrivateKey (js ''0x5eed2'') (js ''0xA11CE'')
        (snd (getOrCreateAgentPrivateKey (js ''0x5eed1'') (js ''0xA11CE'') empty_window))) = Inr (js ''0x5eed1'')"
proof -
  have f: "fst (getOrCreateAgentPrivateKey (js ''0x5eed1'') (js ''0xA11CE'') empty_window) = Inr (js ''0x5eed1'')"
    by (simp add: getOrCreateAgentPrivateKey_def getAgentPrivateKey_def saveAgentPrivateKey_def
        empty_window_def falsy_def)
  have g: "js ''0x5eed1'' \<noteq> []" by (rule js_nonempty)
  from C9_get_or_create_idempotent[OF empty_window_def g, where userAddress = "js ''0xA11CE''"
      and ?generated2.0 = "js ''0x5eed2''"] f
  show ?thesis by auto
qed

end
